theory Spec2Isabelle
  imports Complex_Main "HOL-Library.Word"
begin

section \<open>Data model\<close>

text \<open>
  The export compositor of LinguaLens (\<open>handleDownload\<close> in \<open>App.tsx\<close>) and the state
  handlers next to it. JavaScript numbers are modelled by \<^typ>\<open>real\<close>: the arithmetic
  is the exact one, so the rounding of IEEE-754 doubles, NaN and the infinities are
  outside the model. A JavaScript string is a sequence of UTF-16 code units.
\<close>

type_synonym js_string = "16 word list"

text \<open>
  Modelled from the spec: the \<open>Annotation\<close> type of \<open>types.ts\<close>, which is imported by
  \<open>App.tsx\<close> and is not among the sources. \<open>box_2d\<close> is \<open>[ymin, xmin, ymax, xmax]\<close>.
\<close>

record annotation =
  original :: js_string
  translation :: js_string
  box_2d :: "real \<times> real \<times> real \<times> real"

record offset =
  off_x :: real
  off_y :: real

type_synonym label_offsets = "nat \<rightharpoonup> offset"

text \<open>
  An element of the annotation array. \<open>handleTextChange\<close> writes
  \<open>{ ...newAnnotations[index], translation: newText }\<close> at any index: beyond the end
  of the array JavaScript extends the array with holes, and the object spread of
  \<open>undefined\<close> has no property, so the element written there has a translation only.
  The array spread \<open>[...prev.annotations]\<close> copies a hole as the value \<open>undefined\<close>.
\<close>

datatype slot =
    Full annotation
  | TranslationOnly js_string
  | Undefined
  | Hole

section \<open>String trimming\<close>

text \<open>
  \<open>String.prototype.trim\<close> removes the code units of WhiteSpace and LineTerminator
  from both ends.
\<close>

definition isWhiteSpace :: "16 word \<Rightarrow> bool" where
  "isWhiteSpace c \<longleftrightarrow>
     c = 0x0009 \<or> c = 0x000A \<or> c = 0x000B \<or> c = 0x000C \<or> c = 0x000D \<or>
     c = 0x0020 \<or> c = 0x00A0 \<or> c = 0x1680 \<or> (0x2000 \<le> c \<and> c \<le> 0x200A) \<or>
     c = 0x2028 \<or> c = 0x2029 \<or> c = 0x202F \<or> c = 0x205F \<or> c = 0x3000 \<or>
     c = 0xFEFF"

definition trim :: "js_string \<Rightarrow> js_string" where
  "trim s = rev (dropWhile isWhiteSpace (rev (dropWhile isWhiteSpace s)))"

definition isIdentical :: "annotation \<Rightarrow> bool" where
  "isIdentical ann \<longleftrightarrow> trim (original ann) = trim (translation ann)"

section \<open>Layout of one annotation\<close>

text \<open>
  The values the body of the \<open>forEach\<close> in \<open>handleDownload\<close> computes for one
  annotation, under the names of the source. \<open>cw\<close> and \<open>ch\<close> are \<open>canvas.width\<close> and
  \<open>canvas.height\<close>; \<open>measureText fontSize text\<close> is the width that
  \<open>ctx.measureText(text).width\<close> reports under the font \<open>bold <fontSize>px sans-serif\<close>,
  a parameter since it belongs to the browser.
\<close>

definition ymin :: "annotation \<Rightarrow> real" where
  "ymin ann = (case box_2d ann of (a, b, c, d) \<Rightarrow> a)"

definition xmin :: "annotation \<Rightarrow> real" where
  "xmin ann = (case box_2d ann of (a, b, c, d) \<Rightarrow> b)"

definition ymax :: "annotation \<Rightarrow> real" where
  "ymax ann = (case box_2d ann of (a, b, c, d) \<Rightarrow> c)"

definition xmax :: "annotation \<Rightarrow> real" where
  "xmax ann = (case box_2d ann of (a, b, c, d) \<Rightarrow> d)"

definition rect_x :: "real \<Rightarrow> annotation \<Rightarrow> real" where
  "rect_x cw ann = (xmin ann / 1000) * cw"

definition rect_y :: "real \<Rightarrow> annotation \<Rightarrow> real" where
  "rect_y ch ann = (ymin ann / 1000) * ch"

definition rect_w :: "real \<Rightarrow> annotation \<Rightarrow> real" where
  "rect_w cw ann = ((xmax ann - xmin ann) / 1000) * cw"

definition rect_h :: "real \<Rightarrow> annotation \<Rightarrow> real" where
  "rect_h ch ann = ((ymax ann - ymin ann) / 1000) * ch"

definition lineWidth :: "real \<Rightarrow> real" where
  "lineWidth cw = max 2 (cw * (3 / 1000))"

definition fontSize :: "real \<Rightarrow> real" where
  "fontSize cw = max 16 (min (cw * (25 / 1000)) 32)"

definition padding :: "real \<Rightarrow> real" where
  "padding cw = fontSize cw * (6 / 10)"

definition boxHeight :: "real \<Rightarrow> real" where
  "boxHeight cw = fontSize cw + padding cw"

definition boxWidth :: "(real \<Rightarrow> js_string \<Rightarrow> real) \<Rightarrow> real \<Rightarrow> annotation \<Rightarrow> real" where
  "boxWidth measureText cw ann =
     measureText (fontSize cw) (translation ann) + (padding cw * 2) + 10"

definition isNearBottom :: "annotation \<Rightarrow> bool" where
  "isNearBottom ann \<longleftrightarrow> ymax ann > 850"

definition centerX :: "real \<Rightarrow> annotation \<Rightarrow> real" where
  "centerX cw ann = rect_x cw ann + (rect_w cw ann / 2)"

text \<open>The base position: \<open>labelX\<close> and \<open>labelY\<close> before the user offset is added.\<close>

definition baseLabelX :: "(real \<Rightarrow> js_string \<Rightarrow> real) \<Rightarrow> real \<Rightarrow> annotation \<Rightarrow> real" where
  "baseLabelX measureText cw ann =
     (if xmin ann < 100 then rect_x cw ann
      else if xmax ann > 900 then (rect_x cw ann + rect_w cw ann) - boxWidth measureText cw ann
      else centerX cw ann - (boxWidth measureText cw ann / 2))"

definition baseLabelY :: "real \<Rightarrow> real \<Rightarrow> annotation \<Rightarrow> real" where
  "baseLabelY cw ch ann =
     (if isNearBottom ann then rect_y ch ann - boxHeight cw - 4
      else rect_y ch ann + rect_h ch ann + 4)"

text \<open>
  \<open>labelOffsets[i] || { x: 0, y: 0 }\<close>: a stored offset is an object, hence truthy,
  so the default is taken exactly when the key is absent.
\<close>

definition getOffset :: "label_offsets \<Rightarrow> nat \<Rightarrow> offset" where
  "getOffset offsets i =
     (case offsets i of Some off \<Rightarrow> off | None \<Rightarrow> \<lparr>off_x = 0, off_y = 0\<rparr>)"

definition pixelOffsetX :: "offset \<Rightarrow> real \<Rightarrow> real" where
  "pixelOffsetX off cw = (off_x off / 1000) * cw"

definition pixelOffsetY :: "offset \<Rightarrow> real \<Rightarrow> real" where
  "pixelOffsetY off ch = (off_y off / 1000) * ch"

definition labelX ::
  "(real \<Rightarrow> js_string \<Rightarrow> real) \<Rightarrow> label_offsets \<Rightarrow> real \<Rightarrow> nat \<Rightarrow> annotation \<Rightarrow> real" where
  "labelX measureText offsets cw i ann =
     baseLabelX measureText cw ann + pixelOffsetX (getOffset offsets i) cw"

definition labelY :: "label_offsets \<Rightarrow> real \<Rightarrow> real \<Rightarrow> nat \<Rightarrow> annotation \<Rightarrow> real" where
  "labelY offsets cw ch i ann =
     baseLabelY cw ch ann + pixelOffsetY (getOffset offsets i) ch"

section \<open>Drawing\<close>

text \<open>The canvas calls of the compositor, in the order they are issued.\<close>

datatype draw_cmd =
    DrawImage
  | StrokeRect real real real real real
  | FillRect real real real real
  | FillText js_string real real

text \<open>
  One iteration of the \<open>forEach\<close>: nothing for an annotation whose trimmed texts are
  equal, otherwise the highlight box (\<open>StrokeRect lineWidth x y w h\<close>), the label
  background and the label text.
\<close>

definition drawAnnotation ::
  "(real \<Rightarrow> js_string \<Rightarrow> real) \<Rightarrow> label_offsets \<Rightarrow> real \<Rightarrow> real \<Rightarrow> nat \<Rightarrow> annotation
     \<Rightarrow> draw_cmd list" where
  "drawAnnotation measureText offsets cw ch i ann =
     (if isIdentical ann then []
      else
        [StrokeRect (lineWidth cw) (rect_x cw ann) (rect_y ch ann) (rect_w cw ann) (rect_h ch ann),
         FillRect (labelX measureText offsets cw i ann) (labelY offsets cw ch i ann)
           (boxWidth measureText cw ann) (boxHeight cw),
         FillText (translation ann)
           (labelX measureText offsets cw i ann + padding cw + 5)
           (labelY offsets cw ch i ann + (boxHeight cw / 2))])"

text \<open>
  \<open>imageState.annotations.forEach((ann, i) => ...)\<close>: a hole is not visited; on
  \<open>undefined\<close> and on an object without \<open>original\<close> the first statement of the body,
  \<open>ann.original.trim()\<close>, throws a TypeError, which ends \<open>handleDownload\<close>.
\<close>

datatype js_error = TypeError | Error

fun forEachDraw ::
  "(real \<Rightarrow> js_string \<Rightarrow> real) \<Rightarrow> label_offsets \<Rightarrow> real \<Rightarrow> real \<Rightarrow> nat \<Rightarrow> slot list
     \<Rightarrow> js_error + draw_cmd list" where
  "forEachDraw measureText offsets cw ch i [] = Inr []"
| "forEachDraw measureText offsets cw ch i (Full ann # rest) =
     (case forEachDraw measureText offsets cw ch (Suc i) rest of
        Inl e \<Rightarrow> Inl e
      | Inr cmds \<Rightarrow> Inr (drawAnnotation measureText offsets cw ch i ann @ cmds))"
| "forEachDraw measureText offsets cw ch i (TranslationOnly t # rest) = Inl TypeError"
| "forEachDraw measureText offsets cw ch i (Undefined # rest) = Inl TypeError"
| "forEachDraw measureText offsets cw ch i (Hole # rest) =
     forEachDraw measureText offsets cw ch (Suc i) rest"

section \<open>Application state and handlers\<close>

text \<open>
  The state of the \<open>App\<close> component. \<open>AppMode\<close> and \<open>ImageState\<close> are declared in
  \<open>types.ts\<close>; the two modes are the ones \<open>App.tsx\<close> uses and the fields of the image
  state are those of its initial value there. The fields \<open>original\<close>, \<open>processed\<close>,
  \<open>width\<close> and \<open>height\<close> carry the prefix \<open>img_\<close>, since \<open>original\<close> is a field of an
  annotation as well.
\<close>

datatype app_mode = TRANSLATE | EDIT

record image_state =
  img_original :: "string option"
  img_processed :: "string option"
  annotations :: "slot list"
  img_width :: real
  img_height :: real

record app_state =
  mode :: app_mode
  loading :: bool
  error :: "string option"
  imageState :: image_state
  labelOffsets :: label_offsets
  editPrompt :: string

text \<open>
  A data URL is falsy when it is \<open>null\<close> or the empty string; \<open>orElse v d\<close> below is
  \<open>v || d\<close>.
\<close>

definition truthy :: "string option \<Rightarrow> bool" where
  "truthy v \<longleftrightarrow> (case v of None \<Rightarrow> False | Some str \<Rightarrow> str \<noteq> [])"

definition handleOffsetChange :: "nat \<Rightarrow> offset \<Rightarrow> app_state \<Rightarrow> app_state" where
  "handleOffsetChange index off s = s\<lparr>labelOffsets := (labelOffsets s)(index \<mapsto> off)\<rparr>"

text \<open>
  \<open>handleTextChange\<close>: \<open>[...prev.annotations]\<close>, then \<open>newAnnotations[index] = ...\<close>.
  The index is an array index, as the callers pass it. \<open>arrayGet\<close> is the read
  \<open>xs[index]\<close>, which yields \<open>undefined\<close> for a hole and beyond the end; \<open>arraySet\<close> is
  the write \<open>xs[index] = v\<close>.
\<close>

definition spreadArray :: "slot list \<Rightarrow> slot list" where
  "spreadArray xs = map (\<lambda>v. case v of Hole \<Rightarrow> Undefined | _ \<Rightarrow> v) xs"

definition withTranslation :: "slot \<Rightarrow> js_string \<Rightarrow> slot" where
  "withTranslation v newText =
     (case v of Full ann \<Rightarrow> Full (ann\<lparr>translation := newText\<rparr>)
      | _ \<Rightarrow> TranslationOnly newText)"

definition arraySet :: "slot list \<Rightarrow> nat \<Rightarrow> slot \<Rightarrow> slot list" where
  "arraySet xs index v =
     (if index < length xs then xs[index := v]
      else xs @ replicate (index - length xs) Hole @ [v])"

definition arrayGet :: "slot list \<Rightarrow> nat \<Rightarrow> slot" where
  "arrayGet xs index =
     (if index < length xs then (case xs ! index of Hole \<Rightarrow> Undefined | v \<Rightarrow> v)
      else Undefined)"

definition handleTextChange :: "nat \<Rightarrow> js_string \<Rightarrow> app_state \<Rightarrow> app_state" where
  "handleTextChange index newText s =
     (let newAnnotations = spreadArray (annotations (imageState s));
          newAnnotations = arraySet newAnnotations index
                             (withTranslation (arrayGet newAnnotations index) newText)
      in s\<lparr>imageState := (imageState s)\<lparr>annotations := newAnnotations\<rparr>\<rparr>)"

text \<open>
  \<open>processTranslation\<close>. The awaited call \<open>translateImageText(rawBase64, mimeType)\<close>
  goes to an external service; its outcome, a thrown error or the detected
  annotations, is a parameter. \<open>startTranslation\<close> is the part that runs before the
  \<open>await\<close>, \<open>finishTranslation\<close> the part after it (\<open>try\<close>, \<open>catch\<close>, \<open>finally\<close>).
  The result has the type \<open>Annotation[]\<close>, so each of its elements is a full annotation.
  No other handler runs between the two parts.
\<close>

definition startTranslation :: "app_state \<Rightarrow> app_state" where
  "startTranslation s = s\<lparr>loading := True, error := None, labelOffsets := Map.empty\<rparr>"

definition finishTranslation :: "js_error + annotation list \<Rightarrow> app_state \<Rightarrow> app_state" where
  "finishTranslation outcome s =
     (case outcome of
        Inr results \<Rightarrow>
          (let s' = s\<lparr>imageState := (imageState s)\<lparr>annotations := map Full results\<rparr>\<rparr>
           in if length results = 0
              then s'\<lparr>error := Some ''No English text detected to translate.''\<rparr>
              else s')
      | Inl e \<Rightarrow> s\<lparr>error := Some ''Failed to process translation. Please try again.''\<rparr>)
     \<lparr>loading := False\<rparr>"

definition processTranslation :: "js_error + annotation list \<Rightarrow> app_state \<Rightarrow> app_state" where
  "processTranslation outcome s =
     (if \<not> truthy (img_original (imageState s)) then s
      else finishTranslation outcome (startTranslation s))"

text \<open>
  \<open>handleDownload\<close>. It calls no state setter, so the state it returns is the state it
  was given. \<open>img\<close> is the outcome of loading the source image: \<open>None\<close> when \<open>onload\<close>
  never fires (the awaited promise stays pending), else \<open>naturalWidth\<close> and
  \<open>naturalHeight\<close>; \<open>hasCtx\<close> tells whether \<open>getContext('2d')\<close> returned a context.
  The file name of the download is left out.
\<close>

datatype download =
    NoDownload
  | Pending
  | Href string
  | Canvas "draw_cmd list"
  | Thrown js_error

definition orElse :: "string option \<Rightarrow> string \<Rightarrow> string" where
  "orElse v d = (if truthy v then (case v of Some str \<Rightarrow> str | None \<Rightarrow> d) else d)"

definition handleDownload ::
  "(real \<Rightarrow> js_string \<Rightarrow> real) \<Rightarrow> (real \<times> real) option \<Rightarrow> bool \<Rightarrow> app_state
     \<Rightarrow> app_state \<times> download" where
  "handleDownload measureText img hasCtx s =
     (s,
      case img_original (imageState s) of
        None \<Rightarrow> NoDownload
      | Some orig \<Rightarrow>
          if orig = [] then NoDownload
          else
            (case mode s of
               EDIT \<Rightarrow> Href (orElse (img_processed (imageState s)) orig)
             | TRANSLATE \<Rightarrow>
                 (case img of
                    None \<Rightarrow> Pending
                  | Some (cw, ch) \<Rightarrow>
                      if \<not> hasCtx then NoDownload
                      else
                        (case forEachDraw measureText (labelOffsets s) cw ch 0
                                (annotations (imageState s)) of
                           Inl e \<Rightarrow> Thrown e
                         | Inr cmds \<Rightarrow> Canvas (DrawImage # cmds)))))"

text \<open>
  A text measure for evaluating the model on concrete inputs: every code unit is
  \<open>6/10\<close> of the font size wide.
\<close>

definition fixedPitch :: "real \<Rightarrow> js_string \<Rightarrow> real" where
  "fixedPitch fs text = fs * (6 / 10) * real (length text)"

section \<open>Reading the annotation array\<close>

text \<open>
  What \<open>annotations[i].original\<close>, \<open>annotations[i].translation\<close> and
  \<open>annotations[i].box_2d\<close> hold for an element read with \<open>arrayGet\<close>; \<open>None\<close> stands for
  a property that is not there.
\<close>

definition slotOriginal :: "slot \<Rightarrow> js_string option" where
  "slotOriginal v = (case v of Full ann \<Rightarrow> Some (original ann) | _ \<Rightarrow> None)"

definition slotTranslation :: "slot \<Rightarrow> js_string option" where
  "slotTranslation v =
     (case v of Full ann \<Rightarrow> Some (translation ann) | TranslationOnly t \<Rightarrow> Some t | _ \<Rightarrow> None)"

definition slotBox :: "slot \<Rightarrow> (real \<times> real \<times> real \<times> real) option" where
  "slotBox v = (case v of Full ann \<Rightarrow> Some (box_2d ann) | _ \<Rightarrow> None)"

section \<open>Well-formed boxes and the clamping of the specification\<close>

text \<open>
  The invariant of the data model: \<open>0 \<le> ymin \<le> ymax \<le> 1000\<close> and
  \<open>0 \<le> xmin \<le> xmax \<le> 1000\<close>.
\<close>

definition validBox :: "annotation \<Rightarrow> bool" where
  "validBox ann \<longleftrightarrow>
     0 \<le> ymin ann \<and> ymin ann \<le> ymax ann \<and> ymax ann \<le> 1000 \<and>
     0 \<le> xmin ann \<and> xmin ann \<le> xmax ann \<and> xmax ann \<le> 1000"

text \<open>
  The handling of a malformed box in the words of the specification, which the source
  does not have: the coordinates are clamped into \<open>[0, 1000]\<close> and put in order, or the
  annotation is not drawn.
\<close>

definition spec_clamp :: "real \<Rightarrow> real" where
  "spec_clamp v = max 0 (min 1000 v)"

definition spec_clampBox :: "real \<times> real \<times> real \<times> real \<Rightarrow> real \<times> real \<times> real \<times> real" where
  "spec_clampBox box =
     (case box of (a, b, c, d) \<Rightarrow>
        (min (spec_clamp a) (spec_clamp c), min (spec_clamp b) (spec_clamp d),
         max (spec_clamp a) (spec_clamp c), max (spec_clamp b) (spec_clamp d)))"

definition spec_malformed_handled ::
  "(real \<Rightarrow> js_string \<Rightarrow> real) \<Rightarrow> label_offsets \<Rightarrow> real \<Rightarrow> real \<Rightarrow> nat \<Rightarrow> annotation \<Rightarrow> bool"
  where
  "spec_malformed_handled measureText offsets cw ch i ann \<longleftrightarrow>
     drawAnnotation measureText offsets cw ch i ann = [] \<or>
     drawAnnotation measureText offsets cw ch i ann =
       drawAnnotation measureText offsets cw ch i (ann\<lparr>box_2d := spec_clampBox (box_2d ann)\<rparr>)"

section \<open>Sample inputs\<close>

text \<open>
  Concrete annotations on which the model is evaluated: the scenario box of the
  specification, boxes near the bottom, the middle, the left and the right edge, and a
  numeral whose translation differs from it by blanks only.
\<close>

definition scenarioAnn :: annotation where
  "scenarioAnn =
     \<lparr>original = [0x48, 0x69], translation = [0x4F60, 0x597D], box_2d = (100, 100, 200, 300)\<rparr>"

definition bottomAnn :: annotation where
  "bottomAnn =
     \<lparr>original = [0x48, 0x69], translation = [0x4F60, 0x597D], box_2d = (800, 400, 900, 600)\<rparr>"

definition middleAnn :: annotation where
  "middleAnn =
     \<lparr>original = [0x48, 0x69], translation = [0x4F60, 0x597D], box_2d = (400, 400, 500, 600)\<rparr>"

definition leftAnn :: annotation where
  "leftAnn =
     \<lparr>original = [0x48, 0x69], translation = [0x4F60, 0x597D], box_2d = (100, 0, 200, 300)\<rparr>"

definition rightAnn :: annotation where
  "rightAnn =
     \<lparr>original = [0x48, 0x69], translation = [0x4F60, 0x597D], box_2d = (100, 800, 200, 950)\<rparr>"

definition numeralAnn :: annotation where
  "numeralAnn =
     \<lparr>original = [0x34, 0x32, 0x20], translation = [0x3000, 0x34, 0x32],
      box_2d = (100, 100, 200, 300)\<rparr>"

definition draggedOffset :: offset where
  "draggedOffset = \<lparr>off_x = 50, off_y = - 20\<rparr>"

definition malformedAnn :: annotation where
  "malformedAnn =
     \<lparr>original = [0x48, 0x69], translation = [0x4F60, 0x597D], box_2d = (300, 1100, 200, 900)\<rparr>"

definition sampleState :: app_state where
  "sampleState =
     \<lparr>mode = TRANSLATE, loading = False, error = None,
      imageState =
        \<lparr>img_original = Some ''data:image/png;base64,iVBORw0KGgo='', img_processed = None,
         annotations = [Full scenarioAnn, Full numeralAnn], img_width = 0, img_height = 0\<rparr>,
      labelOffsets = [0 \<mapsto> draggedOffset], editPrompt = []\<rparr>"

section \<open>Unfolding the layout\<close>

lemmas box_defs = xmin_def ymin_def xmax_def ymax_def

lemmas rect_defs = rect_x_def rect_y_def rect_w_def rect_h_def

lemmas label_defs =
  labelX_def labelY_def baseLabelX_def baseLabelY_def boxWidth_def boxHeight_def
  padding_def fontSize_def centerX_def isNearBottom_def pixelOffsetX_def pixelOffsetY_def
  getOffset_def lineWidth_def fixedPitch_def

lemmas sample_defs =
  scenarioAnn_def bottomAnn_def middleAnn_def leftAnn_def rightAnn_def numeralAnn_def
  draggedOffset_def malformedAnn_def

lemma fontSize_bounds: "16 \<le> fontSize cw" "fontSize cw \<le> 32"
  by (simp_all add: fontSize_def)

lemma boxHeight_pos: "0 < boxHeight cw"
proof -
  have "16 \<le> fontSize cw" by (rule fontSize_bounds)
  then show ?thesis by (simp add: boxHeight_def padding_def)
qed

lemma drawAnnotation_shown:
  "\<not> isIdentical ann \<Longrightarrow>
   drawAnnotation m offs cw ch i ann =
     [StrokeRect (lineWidth cw) (rect_x cw ann) (rect_y ch ann) (rect_w cw ann) (rect_h ch ann),
      FillRect (labelX m offs cw i ann) (labelY offs cw ch i ann) (boxWidth m cw ann) (boxHeight cw),
      FillText (translation ann) (labelX m offs cw i ann + padding cw + 5)
        (labelY offs cw ch i ann + (boxHeight cw / 2))]"
  by (simp add: drawAnnotation_def)

lemma drawAnnotation_skipped: "isIdentical ann \<Longrightarrow> drawAnnotation m offs cw ch i ann = []"
  by (simp add: drawAnnotation_def)

lemma scenarioAnn_shown: "\<not> isIdentical scenarioAnn"
  by (simp add: isIdentical_def trim_def isWhiteSpace_def scenarioAnn_def)

section \<open>Pixel rectangle\<close>

text \<open>
  C2. For every \<open>box_2d = [ymin, xmin, ymax, xmax]\<close> and canvas dimensions \<open>W\<close>, \<open>H\<close> the
  rectangle computed for drawing is \<open>x = xmin * W / 1000\<close>, \<open>y = ymin * H / 1000\<close>,
  \<open>w = (xmax - xmin) * W / 1000\<close>, \<open>h = (ymax - ymin) * H / 1000\<close>, and it is the
  rectangle handed to \<open>strokeRect\<close> for an annotation that is drawn; the box
  \<open>[100, 100, 200, 300]\<close> on a 1000 by 1000 canvas gives \<open>{x: 100, y: 100, w: 200, h: 100}\<close>.
\<close>

theorem pixel_rect_formulas:
  "rect_x cw ann = xmin ann * cw / 1000 \<and>
   rect_y ch ann = ymin ann * ch / 1000 \<and>
   rect_w cw ann = (xmax ann - xmin ann) * cw / 1000 \<and>
   rect_h ch ann = (ymax ann - ymin ann) * ch / 1000 \<and>
   (if isIdentical ann then drawAnnotation m offs cw ch i ann = []
    else hd (drawAnnotation m offs cw ch i ann) =
           StrokeRect (lineWidth cw) (xmin ann * cw / 1000) (ymin ann * ch / 1000)
             ((xmax ann - xmin ann) * cw / 1000) ((ymax ann - ymin ann) * ch / 1000)) \<and>
   rect_x 1000 (ann\<lparr>box_2d := (100, 100, 200, 300)\<rparr>) = 100 \<and>
   rect_y 1000 (ann\<lparr>box_2d := (100, 100, 200, 300)\<rparr>) = 100 \<and>
   rect_w 1000 (ann\<lparr>box_2d := (100, 100, 200, 300)\<rparr>) = 200 \<and>
   rect_h 1000 (ann\<lparr>box_2d := (100, 100, 200, 300)\<rparr>) = 100"
proof -
  have formulas:
    "rect_x cw ann = xmin ann * cw / 1000" "rect_y ch ann = ymin ann * ch / 1000"
    "rect_w cw ann = (xmax ann - xmin ann) * cw / 1000"
    "rect_h ch ann = (ymax ann - ymin ann) * ch / 1000"
    by (simp_all add: rect_defs)
  have drawn:
    "if isIdentical ann then drawAnnotation m offs cw ch i ann = []
     else hd (drawAnnotation m offs cw ch i ann) =
            StrokeRect (lineWidth cw) (xmin ann * cw / 1000) (ymin ann * ch / 1000)
              ((xmax ann - xmin ann) * cw / 1000) ((ymax ann - ymin ann) * ch / 1000)"
    by (simp add: drawAnnotation_def rect_defs)
  have scenario:
    "rect_x 1000 (ann\<lparr>box_2d := (100, 100, 200, 300)\<rparr>) = 100"
    "rect_y 1000 (ann\<lparr>box_2d := (100, 100, 200, 300)\<rparr>) = 100"
    "rect_w 1000 (ann\<lparr>box_2d := (100, 100, 200, 300)\<rparr>) = 200"
    "rect_h 1000 (ann\<lparr>box_2d := (100, 100, 200, 300)\<rparr>) = 100"
    by (simp_all add: rect_defs box_defs)
  from formulas drawn scenario show ?thesis by blast
qed

theorem pixel_rect_formulas_witness:
  "hd (drawAnnotation fixedPitch Map.empty 1000 1000 0 scenarioAnn) = StrokeRect 3 100 100 200 100"
  using pixel_rect_formulas [of 1000 scenarioAnn 1000 fixedPitch Map.empty 0] scenarioAnn_shown
  by (simp add: lineWidth_def box_defs scenarioAnn_def)

text \<open>
  C6. For every box with \<open>0 \<le> ymin \<le> ymax \<le> 1000\<close> and \<open>0 \<le> xmin \<le> xmax \<le> 1000\<close> and
  every positive canvas width and height, the pixel rectangle has \<open>x, y, w, h \<ge> 0\<close>,
  \<open>x + w \<le> canvasWidth\<close> and \<open>y + h \<le> canvasHeight\<close>.
\<close>

theorem pixel_rect_within_canvas:
  assumes "0 \<le> ymin ann" and "ymin ann \<le> ymax ann" and "ymax ann \<le> 1000"
    and "0 \<le> xmin ann" and "xmin ann \<le> xmax ann" and "xmax ann \<le> 1000"
    and "0 < cw" and "0 < ch"
  shows "0 \<le> rect_x cw ann \<and> 0 \<le> rect_y ch ann \<and> 0 \<le> rect_w cw ann \<and> 0 \<le> rect_h ch ann \<and>
         rect_x cw ann + rect_w cw ann \<le> cw \<and> rect_y ch ann + rect_h ch ann \<le> ch"
proof -
  have x: "0 \<le> rect_x cw ann" and w: "0 \<le> rect_w cw ann"
    using assms by (simp_all add: rect_defs)
  have y: "0 \<le> rect_y ch ann" and h: "0 \<le> rect_h ch ann"
    using assms by (simp_all add: rect_defs)
  have "rect_x cw ann + rect_w cw ann = (xmax ann / 1000) * cw"
    by (simp add: rect_defs algebra_simps diff_divide_distrib)
  also have "\<dots> \<le> 1 * cw"
    using assms by (intro mult_right_mono) simp_all
  finally have right: "rect_x cw ann + rect_w cw ann \<le> cw" by simp
  have "rect_y ch ann + rect_h ch ann = (ymax ann / 1000) * ch"
    by (simp add: rect_defs algebra_simps diff_divide_distrib)
  also have "\<dots> \<le> 1 * ch"
    using assms by (intro mult_right_mono) simp_all
  finally have bottom: "rect_y ch ann + rect_h ch ann \<le> ch" by simp
  from x y w h right bottom show ?thesis by blast
qed

theorem pixel_rect_within_canvas_witness:
  "0 \<le> rect_x 1920 rightAnn \<and> 0 \<le> rect_y 1080 rightAnn \<and> 0 \<le> rect_w 1920 rightAnn \<and>
   0 \<le> rect_h 1080 rightAnn \<and> rect_x 1920 rightAnn + rect_w 1920 rightAnn \<le> 1920 \<and>
   rect_y 1080 rightAnn + rect_h 1080 rightAnn \<le> 1080"
  using pixel_rect_within_canvas [of rightAnn 1920 1080]
  by (simp add: box_defs rightAnn_def)

section \<open>Default label position\<close>

text \<open>
  C3. The default vertical position of a label: when \<open>ymax > 850\<close> it is above the box,
  at \<open>y = rect.y - labelHeight - gap\<close>, hence \<open>labelY < rect.y\<close>; otherwise it is below
  the box, at \<open>y = rect.y + rect.h + gap\<close>, hence \<open>labelY > rect.y + rect.h\<close>. The gap is
  the constant 4 and the label height is \<open>boxHeight\<close>, which is positive at every canvas
  width. A box with \<open>ymax = 900\<close> gets its label above, one with \<open>ymax = 500\<close> below.
\<close>

theorem label_vertical_placement:
  "baseLabelY cw ch ann =
     (if ymax ann > 850 then rect_y ch ann - boxHeight cw - 4
      else rect_y ch ann + rect_h ch ann + 4) \<and>
   (ymax ann > 850 \<longrightarrow> baseLabelY cw ch ann < rect_y ch ann) \<and>
   (\<not> ymax ann > 850 \<longrightarrow> baseLabelY cw ch ann > rect_y ch ann + rect_h ch ann) \<and>
   (ymax ann = 900 \<longrightarrow> baseLabelY cw ch ann < rect_y ch ann) \<and>
   (ymax ann = 500 \<longrightarrow> baseLabelY cw ch ann > rect_y ch ann + rect_h ch ann)"
proof -
  have pos: "0 < boxHeight cw" by (rule boxHeight_pos)
  have eq: "baseLabelY cw ch ann =
     (if ymax ann > 850 then rect_y ch ann - boxHeight cw - 4
      else rect_y ch ann + rect_h ch ann + 4)"
    by (simp add: baseLabelY_def isNearBottom_def)
  have above: "baseLabelY cw ch ann < rect_y ch ann" if "ymax ann > 850"
    using that pos by (simp add: eq)
  have below: "baseLabelY cw ch ann > rect_y ch ann + rect_h ch ann" if "\<not> ymax ann > 850"
    using that by (simp add: eq)
  have "ymax ann = 900 \<longrightarrow> baseLabelY cw ch ann < rect_y ch ann"
    using above by simp
  moreover have "ymax ann = 500 \<longrightarrow> baseLabelY cw ch ann > rect_y ch ann + rect_h ch ann"
    using below by simp
  ultimately show ?thesis using eq above below by blast
qed

theorem label_vertical_placement_witness:
  "baseLabelY 1000 1000 bottomAnn = 756 \<and> baseLabelY 1000 1000 bottomAnn < rect_y 1000 bottomAnn \<and>
   baseLabelY 1000 1000 middleAnn = 504 \<and>
   baseLabelY 1000 1000 middleAnn > rect_y 1000 middleAnn + rect_h 1000 middleAnn"
  using label_vertical_placement [of 1000 1000 bottomAnn]
    label_vertical_placement [of 1000 1000 middleAnn]
  by (simp add: box_defs rect_defs boxHeight_def padding_def fontSize_def bottomAnn_def
      middleAnn_def)

text \<open>
  C4. The default horizontal position of a label is centred on the box,
  \<open>x = rect.x + rect.w / 2 - labelWidth / 2\<close>, except that for \<open>xmin < 100\<close> the left edge
  of the label is the left edge of the box, and else for \<open>xmax > 900\<close> the right edge of
  the label is the right edge of the box. A box with \<open>xmin = 0\<close> has \<open>labelX = rect.x\<close>,
  which is not the centred position unless the label is exactly as wide as the box.
\<close>

theorem label_horizontal_placement:
  "baseLabelX m cw ann =
     (if xmin ann < 100 then rect_x cw ann
      else if xmax ann > 900 then rect_x cw ann + rect_w cw ann - boxWidth m cw ann
      else rect_x cw ann + rect_w cw ann / 2 - boxWidth m cw ann / 2) \<and>
   (\<not> xmin ann < 100 \<and> xmax ann > 900 \<longrightarrow>
      baseLabelX m cw ann + boxWidth m cw ann = rect_x cw ann + rect_w cw ann) \<and>
   (xmin ann = 0 \<longrightarrow> baseLabelX m cw ann = rect_x cw ann) \<and>
   (xmin ann = 0 \<and> rect_w cw ann \<noteq> boxWidth m cw ann \<longrightarrow>
      baseLabelX m cw ann \<noteq> rect_x cw ann + rect_w cw ann / 2 - boxWidth m cw ann / 2)"
proof -
  have eq: "baseLabelX m cw ann =
     (if xmin ann < 100 then rect_x cw ann
      else if xmax ann > 900 then rect_x cw ann + rect_w cw ann - boxWidth m cw ann
      else rect_x cw ann + rect_w cw ann / 2 - boxWidth m cw ann / 2)"
    by (simp add: baseLabelX_def centerX_def)
  have right: "baseLabelX m cw ann + boxWidth m cw ann = rect_x cw ann + rect_w cw ann"
    if "\<not> xmin ann < 100 \<and> xmax ann > 900"
    using that by (simp add: eq)
  have left: "baseLabelX m cw ann = rect_x cw ann" if "xmin ann = 0"
    using that by (simp add: eq)
  have off_centre:
    "baseLabelX m cw ann \<noteq> rect_x cw ann + rect_w cw ann / 2 - boxWidth m cw ann / 2"
    if "xmin ann = 0 \<and> rect_w cw ann \<noteq> boxWidth m cw ann"
    using that by (simp add: left)
  from eq right left off_centre show ?thesis by blast
qed

theorem label_horizontal_placement_witness:
  "baseLabelX fixedPitch 1000 leftAnn = rect_x 1000 leftAnn \<and>
   baseLabelX fixedPitch 1000 leftAnn = 0 \<and>
   baseLabelX fixedPitch 1000 leftAnn \<noteq>
     rect_x 1000 leftAnn + rect_w 1000 leftAnn / 2 - boxWidth fixedPitch 1000 leftAnn / 2 \<and>
   baseLabelX fixedPitch 1000 rightAnn + boxWidth fixedPitch 1000 rightAnn = 950 \<and>
   baseLabelX fixedPitch 1000 scenarioAnn = 165"
  using label_horizontal_placement [of fixedPitch 1000 leftAnn]
    label_horizontal_placement [of fixedPitch 1000 rightAnn]
    label_horizontal_placement [of fixedPitch 1000 scenarioAnn]
  by (simp add: box_defs rect_defs boxWidth_def padding_def fontSize_def fixedPitch_def
      leftAnn_def rightAnn_def scenarioAnn_def)

section \<open>User offsets\<close>

text \<open>
  C9. For an annotation index with no stored offset the lookup yields \<open>{x: 0, y: 0}\<close>,
  so the label is drawn exactly at its default origin.
\<close>

theorem absent_offset_is_zero:
  assumes "offs i = None"
  shows "getOffset offs i = \<lparr>off_x = 0, off_y = 0\<rparr> \<and>
         labelX m offs cw i ann = baseLabelX m cw ann \<and>
         labelY offs cw ch i ann = baseLabelY cw ch ann"
  using assms by (simp add: getOffset_def labelX_def labelY_def pixelOffsetX_def pixelOffsetY_def)

theorem absent_offset_is_zero_witness:
  "getOffset Map.empty 0 = \<lparr>off_x = 0, off_y = 0\<rparr> \<and>
   labelX fixedPitch Map.empty 1000 0 scenarioAnn = 165 \<and>
   labelY Map.empty 1000 1000 0 scenarioAnn = 204"
  using absent_offset_is_zero [of Map.empty 0 fixedPitch 1000 scenarioAnn 1000]
  by (simp add: baseLabelX_def baseLabelY_def centerX_def isNearBottom_def boxWidth_def
      boxHeight_def padding_def fontSize_def fixedPitch_def box_defs rect_defs scenarioAnn_def)

text \<open>
  C1. For every normalized offset \<open>{x, y}\<close> and positive canvas resolutions \<open>(W1, H1)\<close>
  and \<open>(W2, H2)\<close>, the pixel delta added to the default origin of a label is
  \<open>(x * W1 / 1000, y * H1 / 1000)\<close> at the first and \<open>(x * W2 / 1000, y * H2 / 1000)\<close> at the
  second resolution. The two deltas stand in the ratios \<open>W2 / W1\<close> and \<open>H2 / H1\<close>, and
  relative to the canvas size the delta is the same at both resolutions.
\<close>

theorem offset_resolution_independent:
  assumes "0 < W1" and "0 < H1" and "0 < W2" and "0 < H2"
  shows
    "labelX m offs W1 i ann - baseLabelX m W1 ann = off_x (getOffset offs i) * W1 / 1000 \<and>
     labelY offs W1 H1 i ann - baseLabelY W1 H1 ann = off_y (getOffset offs i) * H1 / 1000 \<and>
     labelX m offs W2 i ann - baseLabelX m W2 ann = off_x (getOffset offs i) * W2 / 1000 \<and>
     labelY offs W2 H2 i ann - baseLabelY W2 H2 ann = off_y (getOffset offs i) * H2 / 1000 \<and>
     labelX m offs W2 i ann - baseLabelX m W2 ann =
       (W2 / W1) * (labelX m offs W1 i ann - baseLabelX m W1 ann) \<and>
     labelY offs W2 H2 i ann - baseLabelY W2 H2 ann =
       (H2 / H1) * (labelY offs W1 H1 i ann - baseLabelY W1 H1 ann) \<and>
     (off_x (getOffset offs i) \<noteq> 0 \<longrightarrow>
        (labelX m offs W2 i ann - baseLabelX m W2 ann) /
        (labelX m offs W1 i ann - baseLabelX m W1 ann) = W2 / W1) \<and>
     (off_y (getOffset offs i) \<noteq> 0 \<longrightarrow>
        (labelY offs W2 H2 i ann - baseLabelY W2 H2 ann) /
        (labelY offs W1 H1 i ann - baseLabelY W1 H1 ann) = H2 / H1) \<and>
     (labelX m offs W1 i ann - baseLabelX m W1 ann) / W1 =
       (labelX m offs W2 i ann - baseLabelX m W2 ann) / W2 \<and>
     (labelY offs W1 H1 i ann - baseLabelY W1 H1 ann) / H1 =
       (labelY offs W2 H2 i ann - baseLabelY W2 H2 ann) / H2"
proof -
  define ox where "ox = off_x (getOffset offs i)"
  define oy where "oy = off_y (getOffset offs i)"
  have dx: "labelX m offs W i ann - baseLabelX m W ann = ox * W / 1000" for W
    by (simp add: labelX_def pixelOffsetX_def ox_def)
  have dy: "labelY offs W H i ann - baseLabelY W H ann = oy * H / 1000" for W H
    by (simp add: labelY_def pixelOffsetY_def oy_def)
  have px: "ox * W2 / 1000 = (W2 / W1) * (ox * W1 / 1000)"
    using assms(1) by simp
  have py: "oy * H2 / 1000 = (H2 / H1) * (oy * H1 / 1000)"
    using assms(2) by simp
  have rx: "(ox * W2 / 1000) / (ox * W1 / 1000) = W2 / W1" if "ox \<noteq> 0"
    using that by simp
  have ry: "(oy * H2 / 1000) / (oy * H1 / 1000) = H2 / H1" if "oy \<noteq> 0"
    using that by simp
  have sx: "(ox * W1 / 1000) / W1 = (ox * W2 / 1000) / W2"
    using assms(1,3) by simp
  have sy: "(oy * H1 / 1000) / H1 = (oy * H2 / 1000) / H2"
    using assms(2,4) by simp
  show ?thesis
    unfolding dx dy using px py rx ry sx sy by (simp add: ox_def oy_def)
qed

theorem offset_resolution_independent_witness:
  "labelX fixedPitch [0 \<mapsto> draggedOffset] 1000 0 scenarioAnn - baseLabelX fixedPitch 1000 scenarioAnn = 50 \<and>
   labelY [0 \<mapsto> draggedOffset] 1000 1000 0 scenarioAnn - baseLabelY 1000 1000 scenarioAnn = - 20 \<and>
   labelX fixedPitch [0 \<mapsto> draggedOffset] 2000 0 scenarioAnn - baseLabelX fixedPitch 2000 scenarioAnn = 100 \<and>
   labelY [0 \<mapsto> draggedOffset] 2000 2000 0 scenarioAnn - baseLabelY 2000 2000 scenarioAnn = - 40"
  using offset_resolution_independent
    [of 1000 1000 2000 2000 fixedPitch "[0 \<mapsto> draggedOffset]" 0 scenarioAnn]
  by (simp add: getOffset_def draggedOffset_def)

section \<open>Malformed boxes\<close>

text \<open>
  C7 as stated fails: the annotation \<open>malformedAnn\<close>, whose box \<open>[300, 1100, 200, 900]\<close>
  is inverted on both axes and out of range, is drawn, and the rectangle stroked on a
  1000 by 1000 canvas is built from the coordinates as stored: it starts at \<open>x = 1100\<close>
  and has the negative width \<open>-200\<close> and height \<open>-100\<close>.
\<close>

theorem malformed_box_counterexample:
  "\<not> validBox malformedAnn \<and>
   \<not> spec_malformed_handled fixedPitch Map.empty 1000 1000 0 malformedAnn \<and>
   hd (drawAnnotation fixedPitch Map.empty 1000 1000 0 malformedAnn) =
     StrokeRect 3 1100 300 (- 200) (- 100)"
  by (simp add: validBox_def spec_malformed_handled_def spec_clampBox_def spec_clamp_def
      drawAnnotation_def isIdentical_def trim_def isWhiteSpace_def box_defs rect_defs
      lineWidth_def malformedAnn_def)

text \<open>
  C7, amended. For every annotation whose box has inverted or out-of-range coordinates
  the compositor neither clamps the coordinates nor skips the annotation on their
  account: the annotation is skipped exactly when its trimmed texts are equal, and
  otherwise the highlight rectangle and the label are drawn from the coordinates as
  they are stored.
\<close>

theorem malformed_box_drawn_as_is:
  assumes "\<not> validBox ann"
  shows "(drawAnnotation m offs cw ch i ann = []) = isIdentical ann \<and>
         (\<not> isIdentical ann \<longrightarrow>
            drawAnnotation m offs cw ch i ann =
              [StrokeRect (lineWidth cw) (xmin ann * cw / 1000) (ymin ann * ch / 1000)
                 ((xmax ann - xmin ann) * cw / 1000) ((ymax ann - ymin ann) * ch / 1000),
               FillRect (labelX m offs cw i ann) (labelY offs cw ch i ann)
                 (boxWidth m cw ann) (boxHeight cw),
               FillText (translation ann) (labelX m offs cw i ann + padding cw + 5)
                 (labelY offs cw ch i ann + boxHeight cw / 2)])"
  by (simp add: drawAnnotation_def rect_defs)

theorem malformed_box_drawn_as_is_witness:
  "drawAnnotation fixedPitch Map.empty 1000 1000 0 malformedAnn =
     [StrokeRect 3 1100 300 (- 200) (- 100), FillRect 965 204 70 40,
      FillText [0x4F60, 0x597D] 985 224]"
proof -
  have bad: "\<not> validBox malformedAnn"
    by (simp add: validBox_def box_defs malformedAnn_def)
  have shown: "\<not> isIdentical malformedAnn"
    by (simp add: isIdentical_def trim_def isWhiteSpace_def malformedAnn_def)
  show ?thesis
    using malformed_box_drawn_as_is [OF bad, of fixedPitch Map.empty 1000 1000 0] shown
    by (simp add: label_defs box_defs rect_defs malformedAnn_def)
qed

section \<open>The skip rule\<close>

lemma forEachDraw_identical:
  "i < length xs \<Longrightarrow> xs ! i = Full ann \<Longrightarrow> isIdentical ann \<Longrightarrow>
   forEachDraw m offs cw ch k xs = forEachDraw m offs cw ch k (xs[i := Hole])"
proof (induction xs arbitrary: i k)
  case Nil
  then show ?case by simp
next
  case (Cons x xs)
  show ?case
  proof (cases i)
    case 0
    with Cons.prems have "x = Full ann" by simp
    with 0 Cons.prems(3) show ?thesis
      by (simp add: drawAnnotation_skipped split: sum.split)
  next
    case (Suc j)
    with Cons.prems have "j < length xs" and "xs ! j = Full ann" by simp_all
    then have "forEachDraw m offs cw ch (Suc k) xs = forEachDraw m offs cw ch (Suc k) (xs[j := Hole])"
      using Cons.prems(3) by (rule Cons.IH)
    with Suc show ?thesis by (cases x) simp_all
  qed
qed

lemma numeralAnn_identical: "isIdentical numeralAnn"
  by (simp add: isIdentical_def trim_def isWhiteSpace_def numeralAnn_def)

lemma length_spreadArray: "length (spreadArray xs) = length xs"
  by (simp add: spreadArray_def)

lemma spreadArray_nth_Full:
  "i < length xs \<Longrightarrow> xs ! i = Full ann \<Longrightarrow> arrayGet (spreadArray xs) i = Full ann"
  by (simp add: arrayGet_def spreadArray_def)

text \<open>
  C5. An annotation of the list whose trimmed original equals its trimmed translation
  issues no canvas call: the compositor produces what it would produce with a hole at
  that index. The download leaves the state as it is, so the annotation is still at its
  index, and both the text edit and the offset edit reach it there.
\<close>

theorem identical_annotation_skipped:
  assumes "i < length (annotations (imageState s))"
    and "annotations (imageState s) ! i = Full ann"
    and "isIdentical ann"
  shows
    "drawAnnotation m (labelOffsets s) cw ch i ann = [] \<and>
     snd (handleDownload m img hasCtx s) =
       snd (handleDownload m img hasCtx
              (s\<lparr>imageState := (imageState s)
                   \<lparr>annotations := (annotations (imageState s))[i := Hole]\<rparr>\<rparr>)) \<and>
     fst (handleDownload m img hasCtx s) = s \<and>
     annotations (imageState (fst (handleDownload m img hasCtx s))) ! i = Full ann \<and>
     annotations (imageState (handleTextChange i t s)) ! i = Full (ann\<lparr>translation := t\<rparr>) \<and>
     getOffset (labelOffsets (handleOffsetChange i off s)) i = off \<and>
     annotations (imageState (handleOffsetChange i off s)) ! i = Full ann"
proof -
  let ?xs = "annotations (imageState s)"
  have none: "drawAnnotation m (labelOffsets s) cw ch i ann = []"
    using assms(3) by (rule drawAnnotation_skipped)
  have same: "forEachDraw m (labelOffsets s) w h 0 ?xs =
              forEachDraw m (labelOffsets s) w h 0 (?xs[i := Hole])" for w h
    using assms by (rule forEachDraw_identical)
  have download: "snd (handleDownload m img hasCtx s) =
       snd (handleDownload m img hasCtx
              (s\<lparr>imageState := (imageState s)\<lparr>annotations := ?xs[i := Hole]\<rparr>\<rparr>))"
    by (simp add: handleDownload_def same split: option.split app_mode.split prod.split)
  have kept: "fst (handleDownload m img hasCtx s) = s"
    by (simp add: handleDownload_def)
  have read: "arrayGet (spreadArray ?xs) i = Full ann"
    using assms(1,2) by (rule spreadArray_nth_Full)
  have edit: "annotations (imageState (handleTextChange i t s)) ! i = Full (ann\<lparr>translation := t\<rparr>)"
    using assms(1)
    by (simp add: handleTextChange_def Let_def arraySet_def read withTranslation_def
        length_spreadArray)
  have drag: "getOffset (labelOffsets (handleOffsetChange i off s)) i = off"
    by (simp add: handleOffsetChange_def getOffset_def)
  have drag_kept: "annotations (imageState (handleOffsetChange i off s)) ! i = Full ann"
    using assms(2) by (simp add: handleOffsetChange_def)
  from none download kept edit drag drag_kept assms(2) show ?thesis by simp
qed

theorem identical_annotation_skipped_witness:
  "snd (handleDownload fixedPitch (Some (1000, 1000)) True sampleState) =
     Canvas [DrawImage, StrokeRect 3 100 100 200 100, FillRect 215 184 70 40,
             FillText [0x4F60, 0x597D] 235 204] \<and>
   annotations (imageState (fst (handleDownload fixedPitch (Some (1000, 1000)) True sampleState))) ! 1 =
     Full numeralAnn \<and>
   annotations (imageState (handleTextChange 1 [0x56DB] sampleState)) ! 1 =
     Full (numeralAnn\<lparr>translation := [0x56DB]\<rparr>) \<and>
   getOffset (labelOffsets (handleOffsetChange 1 draggedOffset sampleState)) 1 = draggedOffset"
proof -
  have len: "1 < length (annotations (imageState sampleState))"
    by (simp add: sampleState_def)
  have at: "annotations (imageState sampleState) ! 1 = Full numeralAnn"
    by (simp add: sampleState_def)
  have holed: "snd (handleDownload fixedPitch (Some (1000, 1000)) True
        (sampleState\<lparr>imageState := (imageState sampleState)
           \<lparr>annotations := (annotations (imageState sampleState))[1 := Hole]\<rparr>\<rparr>)) =
     Canvas [DrawImage, StrokeRect 3 100 100 200 100, FillRect 215 184 70 40,
             FillText [0x4F60, 0x597D] 235 204]"
    using scenarioAnn_shown
    by (simp add: handleDownload_def sampleState_def drawAnnotation_shown)
       (simp add: label_defs box_defs rect_defs scenarioAnn_def draggedOffset_def)
  show ?thesis
    using identical_annotation_skipped [OF len at numeralAnn_identical,
        of fixedPitch 1000 1000 "Some (1000, 1000)" True "[0x56DB]" draggedOffset]
      holed at
    by simp
qed

section \<open>Editing a label text\<close>

lemma arrayGet_spreadArray: "arrayGet (spreadArray xs) j = arrayGet xs j"
  by (simp add: arrayGet_def spreadArray_def split: slot.split)

lemma arrayGet_arraySet_same: "v \<noteq> Hole \<Longrightarrow> arrayGet (arraySet xs i v) i = v"
  by (simp add: arrayGet_def arraySet_def nth_append split: slot.split)

lemma arrayGet_arraySet_other: "j \<noteq> i \<Longrightarrow> arrayGet (arraySet xs i v) j = arrayGet xs j"
  by (auto simp add: arrayGet_def arraySet_def nth_append nth_Cons' split: slot.split)

lemma withTranslation_not_Hole: "withTranslation v t \<noteq> Hole"
  by (simp add: withTranslation_def split: slot.split)

lemma withTranslation_fields:
  "slotTranslation (withTranslation v t) = Some t"
  "slotOriginal (withTranslation v t) = slotOriginal v"
  "slotBox (withTranslation v t) = slotBox v"
  by (simp_all add: withTranslation_def slotTranslation_def slotOriginal_def slotBox_def
      split: slot.split)

lemma handleTextChange_annotations:
  "annotations (imageState (handleTextChange i t s)) =
     arraySet (spreadArray (annotations (imageState s))) i
       (withTranslation (arrayGet (annotations (imageState s)) i) t)"
  by (simp add: handleTextChange_def Let_def arrayGet_spreadArray)

text \<open>
  An index beyond the end of the list: the array grows by holes and by an element that
  has a translation only, on which the next download throws.
\<close>

lemma handleTextChange_beyond_end:
  "annotations (imageState (handleTextChange 3 [0x56DB] sampleState)) =
     [Full scenarioAnn, Full numeralAnn, Hole, TranslationOnly [0x56DB]]"
  by (simp add: handleTextChange_def Let_def arraySet_def arrayGet_def spreadArray_def
      withTranslation_def sampleState_def)

lemma handleDownload_beyond_end:
  "snd (handleDownload fixedPitch (Some (1000, 1000)) True
          (handleTextChange 3 [0x56DB] sampleState)) = Thrown TypeError"
proof -
  let ?s = "handleTextChange 3 [0x56DB] sampleState"
  have thrown: "forEachDraw fixedPitch offs 1000 1000 0 (annotations (imageState ?s)) = Inl TypeError"
    for offs
    by (simp add: handleTextChange_beyond_end)
  have "mode ?s = TRANSLATE"
    and "img_original (imageState ?s) = Some ''data:image/png;base64,iVBORw0KGgo=''"
    by (simp_all add: handleTextChange_def Let_def sampleState_def)
  then show ?thesis
    by (simp add: handleDownload_def thrown)
qed

text \<open>
  C8. Editing the text of label \<open>i\<close> puts the new string into
  \<open>annotations[i].translation\<close> and changes nothing else: \<open>annotations[i].original\<close> and
  \<open>annotations[i].box_2d\<close> are as before, every element at another index reads as
  before, the stored offsets and all other parts of the state are as before. For an
  index inside the list the length of the list is as before too, and an annotation at
  that index is the same annotation with the new translation.
\<close>

theorem handleTextChange_frame:
  "slotTranslation (arrayGet (annotations (imageState (handleTextChange i t s))) i) = Some t \<and>
   slotOriginal (arrayGet (annotations (imageState (handleTextChange i t s))) i) =
     slotOriginal (arrayGet (annotations (imageState s)) i) \<and>
   slotBox (arrayGet (annotations (imageState (handleTextChange i t s))) i) =
     slotBox (arrayGet (annotations (imageState s)) i) \<and>
   (\<forall>j. j \<noteq> i \<longrightarrow>
      arrayGet (annotations (imageState (handleTextChange i t s))) j =
      arrayGet (annotations (imageState s)) j) \<and>
   labelOffsets (handleTextChange i t s) = labelOffsets s \<and>
   handleTextChange i t s =
     s\<lparr>imageState := (imageState s)
          \<lparr>annotations := annotations (imageState (handleTextChange i t s))\<rparr>\<rparr> \<and>
   (i < length (annotations (imageState s)) \<longrightarrow>
      length (annotations (imageState (handleTextChange i t s))) =
      length (annotations (imageState s))) \<and>
   (\<forall>a. i < length (annotations (imageState s)) \<and> annotations (imageState s) ! i = Full a \<longrightarrow>
      annotations (imageState (handleTextChange i t s)) ! i = Full (a\<lparr>translation := t\<rparr>))"
proof -
  let ?xs = "annotations (imageState s)"
  let ?ys = "annotations (imageState (handleTextChange i t s))"
  have at: "arrayGet ?ys i = withTranslation (arrayGet ?xs i) t"
    by (simp add: handleTextChange_annotations arrayGet_arraySet_same withTranslation_not_Hole)
  have tr: "slotTranslation (arrayGet ?ys i) = Some t"
    and orig: "slotOriginal (arrayGet ?ys i) = slotOriginal (arrayGet ?xs i)"
    and box: "slotBox (arrayGet ?ys i) = slotBox (arrayGet ?xs i)"
    by (simp_all add: at withTranslation_fields)
  have others: "arrayGet ?ys j = arrayGet ?xs j" if "j \<noteq> i" for j
    using that
    by (simp add: handleTextChange_annotations arrayGet_arraySet_other arrayGet_spreadArray)
  have offs: "labelOffsets (handleTextChange i t s) = labelOffsets s"
    by (simp add: handleTextChange_def Let_def)
  have rest: "handleTextChange i t s = s\<lparr>imageState := (imageState s)\<lparr>annotations := ?ys\<rparr>\<rparr>"
    by (simp add: handleTextChange_def Let_def)
  have len: "length ?ys = length ?xs" if "i < length ?xs"
    using that by (simp add: handleTextChange_annotations arraySet_def spreadArray_def)
  have full: "?ys ! i = Full (a\<lparr>translation := t\<rparr>)" if "i < length ?xs \<and> ?xs ! i = Full a" for a
    using that
    by (simp add: handleTextChange_annotations arraySet_def spreadArray_def arrayGet_def
        withTranslation_def)
  from tr orig box others offs rest len full show ?thesis by blast
qed

theorem handleTextChange_frame_witness:
  "annotations (imageState (handleTextChange 1 [0x56DB] sampleState)) ! 1 =
     Full (numeralAnn\<lparr>translation := [0x56DB]\<rparr>) \<and>
   arrayGet (annotations (imageState (handleTextChange 1 [0x56DB] sampleState))) 0 = Full scenarioAnn \<and>
   length (annotations (imageState (handleTextChange 1 [0x56DB] sampleState))) = 2 \<and>
   labelOffsets (handleTextChange 1 [0x56DB] sampleState) = [0 \<mapsto> draggedOffset]"
proof -
  note frame = handleTextChange_frame [of 1 "[0x56DB]" sampleState]
  have len: "length (annotations (imageState sampleState)) = 2"
    by (simp add: sampleState_def)
  have at: "annotations (imageState sampleState) ! 1 = Full numeralAnn"
    by (simp add: sampleState_def)
  have before: "arrayGet (annotations (imageState sampleState)) 0 = Full scenarioAnn"
    by (simp add: sampleState_def arrayGet_def)
  have offs: "labelOffsets sampleState = [0 \<mapsto> draggedOffset]"
    by (simp add: sampleState_def)
  have "annotations (imageState (handleTextChange 1 [0x56DB] sampleState)) ! 1 =
          Full (numeralAnn\<lparr>translation := [0x56DB]\<rparr>)"
    using frame len at by simp
  moreover have "arrayGet (annotations (imageState (handleTextChange 1 [0x56DB] sampleState))) 0 =
          Full scenarioAnn"
    using frame before by simp
  moreover have "length (annotations (imageState (handleTextChange 1 [0x56DB] sampleState))) = 2"
    using frame len by simp
  moreover have "labelOffsets (handleTextChange 1 [0x56DB] sampleState) = [0 \<mapsto> draggedOffset]"
    using frame offs by simp
  ultimately show ?thesis by blast
qed

section \<open>A failed translation run\<close>

text \<open>
  C10. When the detection call of a translation run throws, the annotation list is the
  one from before the run, while the offset store is empty: the offsets are cleared in
  the part of the run that precedes the call, and the part that follows it leaves them
  alone, whatever the outcome.
\<close>

theorem failed_translation_clears_offsets:
  assumes "truthy (img_original (imageState s))"
  shows "annotations (imageState (processTranslation (Inl e) s)) = annotations (imageState s) \<and>
         imageState (processTranslation (Inl e) s) = imageState s \<and>
         labelOffsets (processTranslation (Inl e) s) = Map.empty \<and>
         labelOffsets (startTranslation s) = Map.empty \<and>
         labelOffsets (finishTranslation outcome (startTranslation s)) = Map.empty \<and>
         error (processTranslation (Inl e) s) =
           Some ''Failed to process translation. Please try again.'' \<and>
         loading (processTranslation (Inl e) s) = False"
  using assms
  by (simp add: processTranslation_def startTranslation_def finishTranslation_def Let_def
      split: sum.split)

theorem failed_translation_clears_offsets_witness:
  "labelOffsets sampleState 0 = Some draggedOffset \<and>
   labelOffsets (processTranslation (Inl Error) sampleState) = Map.empty \<and>
   annotations (imageState (processTranslation (Inl Error) sampleState)) =
     [Full scenarioAnn, Full numeralAnn]"
proof -
  have present: "truthy (img_original (imageState sampleState))"
    by (simp add: truthy_def sampleState_def)
  show ?thesis
    using failed_translation_clears_offsets [OF present, of Error]
    by (simp add: sampleState_def)
qed

end
